theory Spec2Isabelle
  imports Complex_Main "HOL-Library.Sublist"
begin

section \<open>The local-hub Farcaster plugin: data model\<close>

text \<open>
  The plugin is TypeScript. A \<^verbatim>\<open>number\<close> that holds a count, an account id or a
  timestamp in seconds is modelled as a mathematical integer (\<^typ>\<open>int\<close>), which is what a
  double computes exactly for magnitudes up to \<open>2^53\<close>; the two epoch conversions are
  modelled with the rounding of a double as well. The one fractional quantity of the
  code, \<^verbatim>\<open>Date.now() / 1000\<close>, is a rational. A \<^verbatim>\<open>string\<close> is a \<^typ>\<open>string\<close>, a
  \<^verbatim>\<open>Set<string>\<close> a \<^typ>\<open>string set\<close>. Calls to the logger are not modelled: they write
  to the console and change nothing the program reads.
\<close>

subsection \<open>hub-api-client.ts: HubCast\<close>

text \<open>
  The fields of \<^verbatim>\<open>HubCast\<close> that the modelled functions read. The others (parentHash,
  parentFid, parentUrl, mentions, mentionsPositions, embeds, and the author of
  \<^verbatim>\<open>CastWithAuthor\<close>) are filled in by the parser and read only by a log line.
\<close>

record HubCast =
  hash :: string
  fid :: int
  "text" :: string
  timestamp :: int

subsection \<open>index.ts: LocalHubConfig\<close>

text \<open>
  The configuration and the runtime state are one object in the source
  (\<^verbatim>\<open>localConfig\<close>). The endpoint, credential and interval fields are left out: no
  modelled function reads them. The functions below are modelled in the state the two
  timers run in, that is after \<^verbatim>\<open>initializeFarcaster\<close> has assigned
  \<^verbatim>\<open>localConfig\<close>, \<^verbatim>\<open>hubClient\<close>, \<^verbatim>\<open>hubApiClient\<close> and \<^verbatim>\<open>agentRuntime\<close>, so
  their leading null checks pass.
\<close>

record LocalHubConfig =
  fid :: int
  dryRun :: bool
  maxDailyReplies :: int
  maxDailyLikes :: int
  maxDailyPosts :: int
  scanKeywords :: "string list"
  scanChannels :: "string list"
  maxCastAge :: int
  repliedToHashes :: "string set"
  likedHashes :: "string set"
  dailyReplies :: int
  dailyLikes :: int
  dailyPosts :: int
  lastResetDate :: string

subsection \<open>Effects and the environment\<close>

text \<open>
  What a run does to the outside world and to the ledger is recorded as a list of events, in
  the order the statements execute: the call \<^verbatim>\<open>hubClient.likeCast(targetFid, targetHash)\<close>
  (the like dispatch), the two statements that follow it in each lane, and the body of the
  conditional in \<^verbatim>\<open>resetDailyCountersIfNeeded\<close>.
\<close>

datatype event =
    DailyReset string
  | HubLike int string
  | AddReplied string
  | IncReplies
  | AddLiked string
  | IncLikes

text \<open>How an awaited call settles.\<close>

datatype 'a promise = Fulfilled 'a | Rejected string

text \<open>
  What one loop iteration would observe if it got that far: the value of
  \<^verbatim>\<open>Date.now()\<close> in milliseconds, and how the hub would settle a like submitted then.
\<close>

record tick =
  now_ms :: int
  hubReply :: "unit promise"

text \<open>How one iteration of a \<^verbatim>\<open>for\<close> loop ends; \<open>Throw\<close> leaves for the enclosing catch.\<close>

datatype ctl = Continue | Break | Throw string

section \<open>index.ts: Farcaster timestamp handling\<close>

definition FARCASTER_EPOCH :: int where
  "FARCASTER_EPOCH = 1609459200"

text \<open>
  The source adds and subtracts doubles. On integers the result of such an operation is the
  exact result rounded to the nearest double, ties going to the even significand. A double
  has 53 significant bits: the representable integers around magnitude \<open>a\<close> lie
  \<open>doubleSpacing a\<close> apart, and \<open>roundToDouble\<close> is the rounding. The sum of a double and
  the epoch constant never passes the largest double, so overflow does not arise.
\<close>

function doubleSpacing :: "int \<Rightarrow> int" where
  "doubleSpacing a = (if a < 9007199254740992 then 1 else 2 * doubleSpacing (a div 2))"
  by pat_completeness auto
termination
  by (relation "measure nat") auto

declare doubleSpacing.simps [simp del]

definition roundToDouble :: "int \<Rightarrow> int" where
  "roundToDouble n =
     (let q = doubleSpacing \<bar>n\<bar>; m = n div q; r = n mod q
      in if 2 * r < q then m * q
         else if q < 2 * r then (m + 1) * q
         else if even m then m * q
         else (m + 1) * q)"

text \<open>The two conversions as the source computes them, on an integer-valued double.\<close>

definition farcasterToUnix_f64 :: "int \<Rightarrow> int" where
  "farcasterToUnix_f64 farcasterTimestamp = roundToDouble (farcasterTimestamp + FARCASTER_EPOCH)"

definition unixToFarcaster_f64 :: "int \<Rightarrow> int" where
  "unixToFarcaster_f64 unixTimestamp = roundToDouble (unixTimestamp - FARCASTER_EPOCH)"

text \<open>
  The two conversions without the rounding. They agree with the former as long as the
  magnitude of the argument is at most \<open>2^53 - 1609459200\<close> (shown with the properties), and
  they are what the age test of the two lanes uses, on timestamps and clock readings of the
  order of \<open>10^9\<close>.
\<close>

definition farcasterToUnix :: "int \<Rightarrow> int" where
  "farcasterToUnix farcasterTimestamp = farcasterTimestamp + FARCASTER_EPOCH"

definition unixToFarcaster :: "int \<Rightarrow> int" where
  "unixToFarcaster unixTimestamp = unixTimestamp - FARCASTER_EPOCH"

text \<open>\<^verbatim>\<open>Date.now() / 1000 - farcasterToUnix(cast.timestamp)\<close>, in seconds.\<close>

definition castAge :: "int \<Rightarrow> HubCast \<Rightarrow> rat" where
  "castAge now cast = of_int now / 1000 - of_int (farcasterToUnix (timestamp cast))"

section \<open>index.ts: helpers\<close>

text \<open>\<open>today\<close> is \<^verbatim>\<open>new Date().toDateString()\<close>.\<close>

definition resetDailyCountersIfNeeded ::
  "string \<Rightarrow> LocalHubConfig \<Rightarrow> LocalHubConfig \<times> event list" where
  "resetDailyCountersIfNeeded today localConfig =
     (if lastResetDate localConfig \<noteq> today
      then (localConfig\<lparr>dailyReplies := 0, dailyLikes := 0, dailyPosts := 0,
              lastResetDate := today, repliedToHashes := {}, likedHashes := {}\<rparr>,
            [DailyReset today])
      else (localConfig, []))"

datatype relevance = High | Medium | Low

text \<open>
  \<^verbatim>\<open>String.prototype.toLowerCase\<close> on text made of ASCII characters: the letters A to Z
  move to a to z and every other character stays. \<^verbatim>\<open>s.includes(searchString)\<close> holds when
  \<open>searchString\<close> occurs in \<open>s\<close> as a contiguous run.
\<close>

definition toLowerCase_char :: "char \<Rightarrow> char" where
  "toLowerCase_char c =
     (let n = (of_char c :: nat) in if 65 \<le> n \<and> n \<le> 90 then char_of (n + 32) else c)"

definition toLowerCase :: "string \<Rightarrow> string" where
  "toLowerCase s = map toLowerCase_char s"

definition includes_str :: "string \<Rightarrow> string \<Rightarrow> bool" where
  "includes_str s searchString = sublist searchString s"

definition highKeywords :: "string list" where
  "highKeywords = [''ethereum'', ''defi'', ''web3'', ''nft'', ''crypto'', ''blockchain'',
     ''dapp'', ''smart contract'']"

definition mediumKeywords :: "string list" where
  "mediumKeywords = [''airdrop'', ''treasury'', ''proposal'', ''vote'', ''community'',
     ''decentralized'', ''web3'']"

text \<open>The two counting loops of \<^verbatim>\<open>evaluateRelevance\<close>, with the counter as accumulator.\<close>

fun countMatches :: "string \<Rightarrow> string list \<Rightarrow> int \<Rightarrow> int" where
  "countMatches lowerText [] matches = matches"
| "countMatches lowerText (kw # kws) matches =
     countMatches lowerText kws (if includes_str lowerText kw then matches + 1 else matches)"

definition evaluateRelevance :: "string \<Rightarrow> relevance" where
  "evaluateRelevance txt =
     (let lowerText = toLowerCase txt;
          highMatches = countMatches lowerText highKeywords 0;
          mediumMatches = countMatches lowerText mediumKeywords 0
      in if highMatches \<ge> 1 then High
         else if mediumMatches \<ge> 2 then Medium
         else Low)"

section \<open>index.ts: interaction handlers\<close>

text \<open>
  \<open>reply\<close> is how \<^verbatim>\<open>hubClient.likeCast\<close> settles. The call is made inside a
  \<^verbatim>\<open>try\<close> whose \<^verbatim>\<open>catch\<close> only logs, so both settlements leave \<^verbatim>\<open>likeCast\<close>
  fulfilled; in dry-run mode the hub is not called.
\<close>

definition likeCast ::
  "LocalHubConfig \<Rightarrow> unit promise \<Rightarrow> int \<Rightarrow> string \<Rightarrow> unit promise \<times> event list" where
  "likeCast localConfig reply targetFid targetHash =
     (if dryRun localConfig then (Fulfilled (), [])
      else (case reply of
              Fulfilled message \<Rightarrow> (Fulfilled (), [HubLike targetFid targetHash])
            | Rejected error \<Rightarrow> (Fulfilled (), [HubLike targetFid targetHash])))"

text \<open>The body of the \<^verbatim>\<open>for\<close> loop of \<^verbatim>\<open>respondToMentions\<close>, for one mention.\<close>

definition respondToMentions_body ::
  "LocalHubConfig \<Rightarrow> HubCast \<Rightarrow> tick \<Rightarrow> ctl \<times> LocalHubConfig \<times> event list" where
  "respondToMentions_body localConfig cast tk =
     (if hash cast \<in> repliedToHashes localConfig then (Continue, localConfig, [])
      else if dailyReplies localConfig \<ge> maxDailyReplies localConfig then (Break, localConfig, [])
      else if HubCast.fid cast = LocalHubConfig.fid localConfig then (Continue, localConfig, [])
      else if castAge (now_ms tk) cast > of_int (maxCastAge localConfig)
        then (Continue, localConfig, [])
      else (case likeCast localConfig (hubReply tk) (HubCast.fid cast) (hash cast) of
              (Rejected error, evs) \<Rightarrow> (Throw error, localConfig, evs)
            | (Fulfilled u, evs) \<Rightarrow>
                (Continue,
                 localConfig\<lparr>repliedToHashes := insert (hash cast) (repliedToHashes localConfig),
                   dailyReplies := dailyReplies localConfig + 1\<rparr>,
                 evs @ [AddReplied (hash cast), IncReplies])))"

text \<open>
  The loop of \<^verbatim>\<open>respondToMentions\<close> over the mentions that \<^verbatim>\<open>getMentions\<close> returned,
  each paired with what its iteration would observe. A \<open>Throw\<close> ends the loop in the
  function's \<^verbatim>\<open>catch\<close>, which logs and returns.
\<close>

fun respondToMentions ::
  "LocalHubConfig \<Rightarrow> (HubCast \<times> tick) list \<Rightarrow> LocalHubConfig \<times> event list" where
  "respondToMentions localConfig [] = (localConfig, [])"
| "respondToMentions localConfig ((cast, tk) # mentions) =
     (case respondToMentions_body localConfig cast tk of
        (Continue, localConfig', evs) \<Rightarrow>
          (case respondToMentions localConfig' mentions of
             (localConfig'', evs') \<Rightarrow> (localConfig'', evs @ evs'))
      | (Break, localConfig', evs) \<Rightarrow> (localConfig', evs)
      | (Throw error, localConfig', evs) \<Rightarrow> (localConfig', evs))"

text \<open>The body of the \<^verbatim>\<open>for\<close> loop of \<^verbatim>\<open>scanChannelsForCasts\<close>, for one cast.\<close>

definition scanChannelsForCasts_body ::
  "LocalHubConfig \<Rightarrow> HubCast \<Rightarrow> tick \<Rightarrow> ctl \<times> LocalHubConfig \<times> event list" where
  "scanChannelsForCasts_body localConfig cast tk =
     (if dailyLikes localConfig \<ge> maxDailyLikes localConfig then (Break, localConfig, [])
      else if HubCast.fid cast = LocalHubConfig.fid localConfig then (Continue, localConfig, [])
      else if hash cast \<in> likedHashes localConfig then (Continue, localConfig, [])
      else if castAge (now_ms tk) cast > of_int (maxCastAge localConfig)
        then (Continue, localConfig, [])
      else (let relevance = evaluateRelevance (text cast) in
            if relevance = High \<or> relevance = Medium
            then (case likeCast localConfig (hubReply tk) (HubCast.fid cast) (hash cast) of
                    (Rejected error, evs) \<Rightarrow> (Throw error, localConfig, evs)
                  | (Fulfilled u, evs) \<Rightarrow>
                      (Continue,
                       localConfig\<lparr>likedHashes := insert (hash cast) (likedHashes localConfig),
                         dailyLikes := dailyLikes localConfig + 1\<rparr>,
                       evs @ [AddLiked (hash cast), IncLikes]))
            else (Continue, localConfig, [])))"

text \<open>
  The loop of \<^verbatim>\<open>scanChannelsForCasts\<close> over the casts that \<^verbatim>\<open>getChannelCasts\<close>
  returned for the channel that was drawn.
\<close>

fun scanChannelsForCasts ::
  "LocalHubConfig \<Rightarrow> (HubCast \<times> tick) list \<Rightarrow> LocalHubConfig \<times> event list" where
  "scanChannelsForCasts localConfig [] = (localConfig, [])"
| "scanChannelsForCasts localConfig ((cast, tk) # casts) =
     (case scanChannelsForCasts_body localConfig cast tk of
        (Continue, localConfig', evs) \<Rightarrow>
          (case scanChannelsForCasts localConfig' casts of
             (localConfig'', evs') \<Rightarrow> (localConfig'', evs @ evs'))
      | (Break, localConfig', evs) \<Rightarrow> (localConfig', evs)
      | (Throw error, localConfig', evs) \<Rightarrow> (localConfig', evs))"

section \<open>hub-api-client.ts: getMentions\<close>

text \<open>
  The hub's answer to \<^verbatim>\<open>/v1/castsByMention\<close>: \<^verbatim>\<open>fetch\<close> rejects, or a response
  arrives with its \<^verbatim>\<open>ok\<close> flag and a body that \<^verbatim>\<open>response.json()\<close> either rejects or
  parses; \<open>Body None\<close> is a document without a \<^verbatim>\<open>messages\<close> field. A message carries the
  fields that \<^verbatim>\<open>getMentions\<close> and \<^verbatim>\<open>parseCastMessage\<close> read into the modelled part
  of a cast; \<open>JsonNull\<close> is an entry on which the property reads of the loop body throw.
  \<^verbatim>\<open>getUser\<close> has its own \<^verbatim>\<open>try\<close> and never rejects, and the author it returns is
  not part of the modelled cast.
\<close>

record HubMessage =
  msgType :: "string option"
  msgHash :: string
  msgFid :: "int option"
  msgText :: "string option"
  msgTimestamp :: "int option"

datatype json_message = JsonNull | JsonObject HubMessage

datatype json_body = NotJson string | Body "json_message list option"

datatype http_reply = FetchFailed string | Response bool json_body

definition parseCastMessage :: "HubMessage \<Rightarrow> HubCast" where
  "parseCastMessage msg =
     \<lparr>hash = msgHash msg,
      HubCast.fid = (case msgFid msg of Some n \<Rightarrow> n | None \<Rightarrow> 0),
      text = (case msgText msg of Some s \<Rightarrow> s | None \<Rightarrow> ''''),
      timestamp = (case msgTimestamp msg of Some n \<Rightarrow> n | None \<Rightarrow> 0)\<rparr>"

text \<open>The \<^verbatim>\<open>for\<close> loop of \<^verbatim>\<open>getMentions\<close>, which pushes onto \<^verbatim>\<open>casts\<close>.\<close>

fun collectCasts :: "json_message list \<Rightarrow> HubCast list \<Rightarrow> HubCast list promise" where
  "collectCasts [] casts = Fulfilled casts"
| "collectCasts (JsonNull # messages) casts = Rejected ''TypeError''"
| "collectCasts (JsonObject msg # messages) casts =
     (if msgType msg \<noteq> Some ''MESSAGE_TYPE_CAST_ADD'' then collectCasts messages casts
      else collectCasts messages (casts @ [parseCastMessage msg]))"

text \<open>
  \<^verbatim>\<open>Array.prototype.sort(compareFn)\<close>: a stable sort that puts \<open>a\<close> before \<open>b\<close> when
  \<open>compareFn a b\<close> is negative and keeps the order of elements that compare equal.
\<close>

fun insertBy :: "('a \<Rightarrow> 'a \<Rightarrow> int) \<Rightarrow> 'a \<Rightarrow> 'a list \<Rightarrow> 'a list" where
  "insertBy compareFn x [] = [x]"
| "insertBy compareFn x (y # ys) =
     (if compareFn x y \<le> 0 then x # y # ys else y # insertBy compareFn x ys)"

definition arraySort :: "('a \<Rightarrow> 'a \<Rightarrow> int) \<Rightarrow> 'a list \<Rightarrow> 'a list" where
  "arraySort compareFn xs = foldr (insertBy compareFn) xs []"

text \<open>The comparator \<^verbatim>\<open>(a, b) => b.timestamp - a.timestamp\<close>.\<close>

definition byTimestampDesc :: "HubCast \<Rightarrow> HubCast \<Rightarrow> int" where
  "byTimestampDesc a b = timestamp b - timestamp a"

text \<open>
  \<^verbatim>\<open>xs.slice(0, end)\<close> on an integer \<open>end\<close>: the first \<open>end\<close> elements, all of them when
  \<open>end\<close> passes the length; a negative \<open>end\<close> counts from the end of the array, so that the
  last \<open>- end\<close> elements are dropped.
\<close>

definition slice0 :: "'a list \<Rightarrow> int \<Rightarrow> 'a list" where
  "slice0 xs end_index =
     (if end_index < 0 then take (nat (int (length xs) + end_index)) xs
      else take (nat end_index) xs)"

text \<open>
  \<open>castsByMention\<close> is the hub endpoint as a function of the two query parameters the URL
  carries, the account and the page size.
\<close>

definition getMentions :: "(int \<Rightarrow> int \<Rightarrow> http_reply) \<Rightarrow> int \<Rightarrow> int \<Rightarrow> HubCast list" where
  "getMentions castsByMention mentionedFid limit =
     (case castsByMention mentionedFid limit of
        FetchFailed error \<Rightarrow> []
      | Response ok body \<Rightarrow>
          if \<not> ok then []
          else (case body of
                  NotJson error \<Rightarrow> []
                | Body messages \<Rightarrow>
                    (case collectCasts (case messages of Some ms \<Rightarrow> ms | None \<Rightarrow> []) [] of
                       Rejected error \<Rightarrow> []
                     | Fulfilled casts \<Rightarrow> slice0 (arraySort byTimestampDesc casts) limit)))"

section \<open>Reading an event list\<close>

text \<open>The effect of one event on the ledger, and of a list of events in order.\<close>

fun apply_event :: "event \<Rightarrow> LocalHubConfig \<Rightarrow> LocalHubConfig" where
  "apply_event (DailyReset today) cfg =
     cfg\<lparr>dailyReplies := 0, dailyLikes := 0, dailyPosts := 0,
       lastResetDate := today, repliedToHashes := {}, likedHashes := {}\<rparr>"
| "apply_event (HubLike targetFid targetHash) cfg = cfg"
| "apply_event (AddReplied h) cfg = cfg\<lparr>repliedToHashes := insert h (repliedToHashes cfg)\<rparr>"
| "apply_event IncReplies cfg = cfg\<lparr>dailyReplies := dailyReplies cfg + 1\<rparr>"
| "apply_event (AddLiked h) cfg = cfg\<lparr>likedHashes := insert h (likedHashes cfg)\<rparr>"
| "apply_event IncLikes cfg = cfg\<lparr>dailyLikes := dailyLikes cfg + 1\<rparr>"

fun replay :: "LocalHubConfig \<Rightarrow> event list \<Rightarrow> LocalHubConfig" where
  "replay cfg [] = cfg"
| "replay cfg (e # es) = replay (apply_event e cfg) es"

text \<open>The dedup set, the counter, the cap and the two commit steps of each lane.\<close>

datatype lane = MentionLane | ChannelLane

fun dedup :: "lane \<Rightarrow> LocalHubConfig \<Rightarrow> string set" where
  "dedup MentionLane cfg = repliedToHashes cfg"
| "dedup ChannelLane cfg = likedHashes cfg"

fun counter :: "lane \<Rightarrow> LocalHubConfig \<Rightarrow> int" where
  "counter MentionLane cfg = dailyReplies cfg"
| "counter ChannelLane cfg = dailyLikes cfg"

fun cap :: "lane \<Rightarrow> LocalHubConfig \<Rightarrow> int" where
  "cap MentionLane cfg = maxDailyReplies cfg"
| "cap ChannelLane cfg = maxDailyLikes cfg"

fun commit :: "lane \<Rightarrow> string \<Rightarrow> event list" where
  "commit MentionLane h = [AddReplied h, IncReplies]"
| "commit ChannelLane h = [AddLiked h, IncLikes]"

text \<open>
  The ordering as the specification words it: at every like dispatch of the event list,
  started in ledger \<open>cfg\<close>, the hash dispatched is already in the lane's dedup set.
\<close>

fun reserved_before_dispatch :: "lane \<Rightarrow> LocalHubConfig \<Rightarrow> event list \<Rightarrow> bool" where
  "reserved_before_dispatch l cfg [] = True"
| "reserved_before_dispatch l cfg (HubLike targetFid targetHash # es) =
     (targetHash \<in> dedup l cfg \<and> reserved_before_dispatch l cfg es)"
| "reserved_before_dispatch l cfg (e # es) = reserved_before_dispatch l (apply_event e cfg) es"

text \<open>
  The ordering of the source: at every like dispatch the hash is not yet in the lane's dedup
  set, the lane's counter is below its cap, and the two commit steps are the next two events.
\<close>

fun committed_after_dispatch :: "lane \<Rightarrow> LocalHubConfig \<Rightarrow> event list \<Rightarrow> bool" where
  "committed_after_dispatch l cfg [] = True"
| "committed_after_dispatch l cfg (HubLike targetFid targetHash # es) =
     (targetHash \<notin> dedup l cfg \<and> counter l cfg < cap l cfg
      \<and> take 2 es = commit l targetHash \<and> committed_after_dispatch l cfg es)"
| "committed_after_dispatch l cfg (e # es) = committed_after_dispatch l (apply_event e cfg) es"

section \<open>The relevance classifier as the specification words it\<close>

text \<open>
  Case-fold the text; high if at least one high-tier keyword occurs in it; otherwise medium
  if at least two distinct medium-tier keywords occur in it; otherwise low.
\<close>

definition relevance_spec :: "string \<Rightarrow> relevance" where
  "relevance_spec txt =
     (let folded = toLowerCase txt in
      if \<exists>kw \<in> set highKeywords. includes_str folded kw then High
      else if 2 \<le> card {kw \<in> set mediumKeywords. includes_str folded kw} then Medium
      else Low)"

section \<open>Concrete inputs\<close>

text \<open>
  A configuration with the default caps except a reply cap of 1, on 14 November 2023; the
  clock reads 1700000000 seconds after the Unix epoch.
\<close>

definition exampleConfig :: LocalHubConfig where
  "exampleConfig = \<lparr>LocalHubConfig.fid = 7, dryRun = False, maxDailyReplies = 1,
     maxDailyLikes = 30, maxDailyPosts = 3,
     scanKeywords = [''ethereum'', ''defi'', ''web3'', ''nft'', ''crypto'', ''blockchain''],
     scanChannels = [''ethereum'', ''base'', ''farcaster'', ''dev''],
     maxCastAge = 14 * 86400, repliedToHashes = {}, likedHashes = {}, dailyReplies = 0,
     dailyLikes = 0, dailyPosts = 0, lastResetDate = ''Tue Nov 14 2023''\<rparr>"

definition yesterdayConfig :: LocalHubConfig where
  "yesterdayConfig = exampleConfig\<lparr>repliedToHashes := {''0xaa01''}, likedHashes := {''0xdd01''},
     dailyReplies := 1, dailyLikes := 4, dailyPosts := 2, lastResetDate := ''Mon Nov 13 2023''\<rparr>"

definition hubUp :: tick where
  "hubUp = \<lparr>now_ms = 1700000000000, hubReply = Fulfilled ()\<rparr>"

definition hubDown :: tick where
  "hubDown = \<lparr>now_ms = 1700000000000, hubReply = Rejected ''14 UNAVAILABLE''\<rparr>"

definition freshMention :: HubCast where
  "freshMention = \<lparr>hash = ''0xaa01'', HubCast.fid = 11, text = ''gm @agent'',
     timestamp = unixToFarcaster (1700000000 - 86400)\<rparr>"

definition secondMention :: HubCast where
  "secondMention = \<lparr>hash = ''0xaa02'', HubCast.fid = 12, text = ''hello @agent'',
     timestamp = unixToFarcaster (1700000000 - 3600)\<rparr>"

definition staleCast :: HubCast where
  "staleCast = \<lparr>hash = ''0xbb01'', HubCast.fid = 13, text = ''Ethereum DeFi news'',
     timestamp = unixToFarcaster (1700000000 - 20 * 86400)\<rparr>"

definition lowCast :: HubCast where
  "lowCast = \<lparr>hash = ''0xcc01'', HubCast.fid = 14, text = ''Good morning'',
     timestamp = unixToFarcaster (1700000000 - 86400)\<rparr>"

definition highCast :: HubCast where
  "highCast = \<lparr>hash = ''0xdd01'', HubCast.fid = 15, text = ''New DeFi protocol'',
     timestamp = unixToFarcaster (1700000000 - 86400)\<rparr>"

definition selfCast :: HubCast where
  "selfCast = \<lparr>hash = ''0xee01'', HubCast.fid = 7, text = ''New DeFi protocol'',
     timestamp = unixToFarcaster (1700000000 - 86400)\<rparr>"

definition castAdd :: "string \<Rightarrow> int \<Rightarrow> int \<Rightarrow> json_message" where
  "castAdd h f ts = JsonObject \<lparr>msgType = Some ''MESSAGE_TYPE_CAST_ADD'', msgHash = h,
     msgFid = Some f, msgText = Some ''gm'', msgTimestamp = Some ts\<rparr>"

text \<open>
  A hub that answers for account 7 with three cast-add messages and one removal, out of
  order; refuses account 8 with a non-ok status; sends account 9 a body that is not JSON and
  account 10 a null entry; and is unreachable for every other account.
\<close>

definition exampleHub :: "int \<Rightarrow> int \<Rightarrow> http_reply" where
  "exampleHub mentionedFid pageSize =
     (if mentionedFid = 7
      then Response True (Body (Some [castAdd ''0x01'' 11 100, castAdd ''0x02'' 12 300,
             JsonObject \<lparr>msgType = Some ''MESSAGE_TYPE_CAST_REMOVE'', msgHash = ''0x03'',
               msgFid = Some 12, msgText = None, msgTimestamp = Some 400\<rparr>,
             castAdd ''0x04'' 13 200]))
      else if mentionedFid = 8 then Response False (Body None)
      else if mentionedFid = 9 then Response True (NotJson ''Unexpected token'')
      else if mentionedFid = 10
        then Response True (Body (Some [castAdd ''0x01'' 11 100, JsonNull]))
      else FetchFailed ''ECONNREFUSED'')"

lemmas example_defs = exampleConfig_def hubUp_def hubDown_def freshMention_def
  secondMention_def staleCast_def lowCast_def highCast_def selfCast_def castAge_def farcasterToUnix_def
  unixToFarcaster_def FARCASTER_EPOCH_def

section \<open>Auxiliary facts\<close>

subsection \<open>Rounding to a double\<close>

lemma doubleSpacing_small: "a < 9007199254740992 \<Longrightarrow> doubleSpacing a = 1"
  by (simp add: doubleSpacing.simps)

lemma roundToDouble_small: "\<bar>n\<bar> < 9007199254740992 \<Longrightarrow> roundToDouble n = n"
  by (simp add: roundToDouble_def doubleSpacing_small)

lemma roundToDouble_pow53:
  "roundToDouble 9007199254740992 = 9007199254740992"
  "roundToDouble (- 9007199254740992) = - 9007199254740992"
  by code_simp+

lemma roundToDouble_exact: "\<bar>n\<bar> \<le> 9007199254740992 \<Longrightarrow> roundToDouble n = n"
proof -
  assume a: "\<bar>n\<bar> \<le> 9007199254740992"
  then consider "\<bar>n\<bar> < 9007199254740992" | "n = 9007199254740992" | "n = - 9007199254740992"
    by linarith
  then show ?thesis
    by cases (simp_all add: roundToDouble_small roundToDouble_pow53)
qed

subsection \<open>The loops\<close>

lemma likeCast_eq:
  "likeCast cfg reply f h = (Fulfilled (), if dryRun cfg then [] else [HubLike f h])"
  by (simp add: likeCast_def split: promise.splits)

lemma respondToMentions_body_eq:
  "respondToMentions_body cfg cast tk =
     (if hash cast \<in> repliedToHashes cfg then (Continue, cfg, [])
      else if dailyReplies cfg \<ge> maxDailyReplies cfg then (Break, cfg, [])
      else if HubCast.fid cast = LocalHubConfig.fid cfg then (Continue, cfg, [])
      else if castAge (now_ms tk) cast > of_int (maxCastAge cfg) then (Continue, cfg, [])
      else (Continue,
            cfg\<lparr>repliedToHashes := insert (hash cast) (repliedToHashes cfg),
              dailyReplies := dailyReplies cfg + 1\<rparr>,
            (if dryRun cfg then [] else [HubLike (HubCast.fid cast) (hash cast)])
              @ [AddReplied (hash cast), IncReplies]))"
  by (simp add: respondToMentions_body_def likeCast_eq)

lemma scanChannelsForCasts_body_eq:
  "scanChannelsForCasts_body cfg cast tk =
     (if dailyLikes cfg \<ge> maxDailyLikes cfg then (Break, cfg, [])
      else if HubCast.fid cast = LocalHubConfig.fid cfg then (Continue, cfg, [])
      else if hash cast \<in> likedHashes cfg then (Continue, cfg, [])
      else if castAge (now_ms tk) cast > of_int (maxCastAge cfg) then (Continue, cfg, [])
      else if evaluateRelevance (text cast) = Low then (Continue, cfg, [])
      else (Continue,
            cfg\<lparr>likedHashes := insert (hash cast) (likedHashes cfg),
              dailyLikes := dailyLikes cfg + 1\<rparr>,
            (if dryRun cfg then [] else [HubLike (HubCast.fid cast) (hash cast)])
              @ [AddLiked (hash cast), IncLikes]))"
  by (cases "evaluateRelevance (text cast)")
     (simp_all add: scanChannelsForCasts_body_def likeCast_eq)

lemma respondToMentions_at_cap:
  "dailyReplies cfg \<ge> maxDailyReplies cfg \<Longrightarrow> respondToMentions cfg items = (cfg, [])"
  by (induction items) (auto simp: respondToMentions_body_eq)

lemma scanChannelsForCasts_at_cap:
  "dailyLikes cfg \<ge> maxDailyLikes cfg \<Longrightarrow> scanChannelsForCasts cfg items = (cfg, [])"
  by (cases items) (auto simp: scanChannelsForCasts_body_eq)

lemma respondToMentions_drop_stale:
  "maxCastAge cfg = m \<Longrightarrow>
   respondToMentions cfg (filter (\<lambda>(c, t). \<not> castAge (now_ms t) c > of_int m) items)
     = respondToMentions cfg items"
proof (induction items arbitrary: cfg)
  case Nil
  show ?case by simp
next
  case (Cons item items)
  obtain c t where item: "item = (c, t)" by (cases item)
  show ?case
  proof (cases "castAge (now_ms t) c > of_int m")
    case True
    then show ?thesis
      using Cons item respondToMentions_at_cap [of cfg items]
      by (simp add: respondToMentions_body_eq)
  next
    case False
    then show ?thesis
      using Cons item by (simp add: respondToMentions_body_eq)
  qed
qed

lemma scanChannelsForCasts_drop_stale:
  "maxCastAge cfg = m \<Longrightarrow>
   scanChannelsForCasts cfg (filter (\<lambda>(c, t). \<not> castAge (now_ms t) c > of_int m) items)
     = scanChannelsForCasts cfg items"
proof (induction items arbitrary: cfg)
  case Nil
  show ?case by simp
next
  case (Cons item items)
  obtain c t where item: "item = (c, t)" by (cases item)
  show ?case
  proof (cases "castAge (now_ms t) c > of_int m")
    case True
    then show ?thesis
      using Cons item scanChannelsForCasts_at_cap [of cfg]
      by (simp add: scanChannelsForCasts_body_eq)
  next
    case False
    then show ?thesis
      using Cons item by (simp add: scanChannelsForCasts_body_eq)
  qed
qed

lemma scanChannelsForCasts_drop_low:
  "scanChannelsForCasts cfg (filter (\<lambda>(c, t). evaluateRelevance (text c) \<noteq> Low) items)
     = scanChannelsForCasts cfg items"
proof (induction items arbitrary: cfg)
  case Nil
  show ?case by simp
next
  case (Cons item items)
  obtain c t where item: "item = (c, t)" by (cases item)
  show ?case
  proof (cases "evaluateRelevance (text c) = Low")
    case True
    then show ?thesis
      using Cons item scanChannelsForCasts_at_cap [of cfg]
      by (simp add: scanChannelsForCasts_body_eq)
  next
    case False
    then show ?thesis
      using Cons item by (simp add: scanChannelsForCasts_body_eq)
  qed
qed

lemma twenty_days_stale:
  "maxCastAge cfg = 14 * 86400 \<Longrightarrow> timestamp cast = unixToFarcaster (now - 20 * 86400) \<Longrightarrow>
   now_ms tk = 1000 * now \<Longrightarrow> castAge (now_ms tk) cast > of_int (maxCastAge cfg)"
  by (simp add: castAge_def farcasterToUnix_def unixToFarcaster_def)

lemma respondToMentions_replay:
  "replay cfg (snd (respondToMentions cfg items)) = fst (respondToMentions cfg items)"
proof (induction items arbitrary: cfg)
  case Nil
  show ?case by simp
next
  case (Cons item items)
  obtain c t where item: "item = (c, t)" by (cases item)
  show ?case
    using Cons [of "cfg\<lparr>repliedToHashes := insert (hash c) (repliedToHashes cfg),
              dailyReplies := dailyReplies cfg + 1\<rparr>"] Cons [of cfg] item
    by (simp add: respondToMentions_body_eq case_prod_beta)
qed

lemma scanChannelsForCasts_replay:
  "replay cfg (snd (scanChannelsForCasts cfg items)) = fst (scanChannelsForCasts cfg items)"
proof (induction items arbitrary: cfg)
  case Nil
  show ?case by simp
next
  case (Cons item items)
  obtain c t where item: "item = (c, t)" by (cases item)
  show ?case
    using Cons [of "cfg\<lparr>likedHashes := insert (hash c) (likedHashes cfg),
              dailyLikes := dailyLikes cfg + 1\<rparr>"] Cons [of cfg] item
    by (simp add: scanChannelsForCasts_body_eq case_prod_beta)
qed

lemma respondToMentions_committed_after:
  "committed_after_dispatch MentionLane cfg (snd (respondToMentions cfg items))"
proof (induction items arbitrary: cfg)
  case Nil
  show ?case by simp
next
  case (Cons item items)
  obtain c t where item: "item = (c, t)" by (cases item)
  show ?case
    using Cons [of "cfg\<lparr>repliedToHashes := insert (hash c) (repliedToHashes cfg),
              dailyReplies := dailyReplies cfg + 1\<rparr>"] Cons [of cfg] item
    by (simp add: respondToMentions_body_eq case_prod_beta)
qed

lemma scanChannelsForCasts_committed_after:
  "committed_after_dispatch ChannelLane cfg (snd (scanChannelsForCasts cfg items))"
proof (induction items arbitrary: cfg)
  case Nil
  show ?case by simp
next
  case (Cons item items)
  obtain c t where item: "item = (c, t)" by (cases item)
  show ?case
    using Cons [of "cfg\<lparr>likedHashes := insert (hash c) (likedHashes cfg),
              dailyLikes := dailyLikes cfg + 1\<rparr>"] Cons [of cfg] item
    by (simp add: scanChannelsForCasts_body_eq case_prod_beta)
qed

lemma respondToMentions_scanKeywords:
  "respondToMentions (cfg\<lparr>scanKeywords := ks\<rparr>) items =
     (fst (respondToMentions cfg items)\<lparr>scanKeywords := ks\<rparr>, snd (respondToMentions cfg items))"
proof (induction items arbitrary: cfg)
  case Nil
  show ?case by simp
next
  case (Cons item items)
  obtain c t where item: "item = (c, t)" by (cases item)
  let ?cfg' = "cfg\<lparr>repliedToHashes := insert (hash c) (repliedToHashes cfg),
              dailyReplies := dailyReplies cfg + 1\<rparr>"
  have swap: "cfg\<lparr>scanKeywords := ks, repliedToHashes := insert (hash c) (repliedToHashes cfg),
              dailyReplies := dailyReplies cfg + 1\<rparr> = ?cfg'\<lparr>scanKeywords := ks\<rparr>"
    by simp
  have step: "respondToMentions (?cfg'\<lparr>scanKeywords := ks\<rparr>) items =
     (fst (respondToMentions ?cfg' items)\<lparr>scanKeywords := ks\<rparr>, snd (respondToMentions ?cfg' items))"
    by (rule Cons)
  show ?case
    using Cons [of cfg] item
    by (simp add: respondToMentions_body_eq case_prod_beta) (simp only: swap step fst_conv snd_conv simp_thms)
qed

lemma scanChannelsForCasts_scanKeywords:
  "scanChannelsForCasts (cfg\<lparr>scanKeywords := ks\<rparr>) items =
     (fst (scanChannelsForCasts cfg items)\<lparr>scanKeywords := ks\<rparr>, snd (scanChannelsForCasts cfg items))"
proof (induction items arbitrary: cfg)
  case Nil
  show ?case by simp
next
  case (Cons item items)
  obtain c t where item: "item = (c, t)" by (cases item)
  let ?cfg' = "cfg\<lparr>likedHashes := insert (hash c) (likedHashes cfg),
              dailyLikes := dailyLikes cfg + 1\<rparr>"
  have swap: "cfg\<lparr>scanKeywords := ks, likedHashes := insert (hash c) (likedHashes cfg),
              dailyLikes := dailyLikes cfg + 1\<rparr> = ?cfg'\<lparr>scanKeywords := ks\<rparr>"
    by simp
  have step: "scanChannelsForCasts (?cfg'\<lparr>scanKeywords := ks\<rparr>) items =
     (fst (scanChannelsForCasts ?cfg' items)\<lparr>scanKeywords := ks\<rparr>, snd (scanChannelsForCasts ?cfg' items))"
    by (rule Cons)
  show ?case
    using Cons [of cfg] item
    by (simp add: scanChannelsForCasts_body_eq case_prod_beta) (simp only: swap step fst_conv snd_conv simp_thms)
qed

subsection \<open>The classifier\<close>

lemma countMatches_filter:
  "countMatches t kws n = n + int (length (filter (includes_str t) kws))"
  by (induction kws arbitrary: n) auto

lemma distinct_mediumKeywords: "distinct mediumKeywords"
  by (simp add: mediumKeywords_def)

lemma medium_count_card:
  "length (filter (includes_str t) mediumKeywords)
     = card {kw \<in> set mediumKeywords. includes_str t kw}"
proof -
  have "distinct (filter (includes_str t) mediumKeywords)"
    using distinct_mediumKeywords by (rule distinct_filter)
  then have "card (set (filter (includes_str t) mediumKeywords))
      = length (filter (includes_str t) mediumKeywords)"
    by (rule distinct_card)
  moreover have "set (filter (includes_str t) mediumKeywords)
      = {kw \<in> set mediumKeywords. includes_str t kw}"
    by (rule set_filter)
  ultimately show ?thesis by simp
qed

lemma high_count_pos:
  "(1 \<le> int (length (filter (includes_str t) highKeywords)))
     = (\<exists>kw \<in> set highKeywords. includes_str t kw)"
proof -
  have "(filter (includes_str t) highKeywords \<noteq> [])
      = (\<exists>kw \<in> set highKeywords. includes_str t kw)"
    by (simp add: filter_empty_conv)
  moreover have "(1 \<le> int (length (filter (includes_str t) highKeywords)))
      = (filter (includes_str t) highKeywords \<noteq> [])"
    by (cases "filter (includes_str t) highKeywords") simp_all
  ultimately show ?thesis by simp
qed

lemma evaluateRelevance_spec: "evaluateRelevance txt = relevance_spec txt"
proof -
  have m: "(2 \<le> int (length (filter (includes_str (toLowerCase txt)) mediumKeywords)))
      = (2 \<le> card {kw \<in> set mediumKeywords. includes_str (toLowerCase txt) kw})"
    by (simp only: medium_count_card) linarith
  show ?thesis
    unfolding evaluateRelevance_def relevance_spec_def Let_def countMatches_filter
    using high_count_pos [of "toLowerCase txt"] m
    by simp
qed

lemma toLowerCase_char_idem: "toLowerCase_char (toLowerCase_char c) = toLowerCase_char c"
proof (cases "65 \<le> (of_char c :: nat) \<and> (of_char c :: nat) \<le> 90")
  case True
  then have "(of_char (char_of (of_char c + 32 :: nat)) :: nat) = of_char c + 32"
    by (simp add: of_char_of)
  with True show ?thesis
    by (simp add: toLowerCase_char_def Let_def)
next
  case False
  then show ?thesis
    by (auto simp: toLowerCase_char_def Let_def)
qed

lemma toLowerCase_idem: "toLowerCase (toLowerCase s) = toLowerCase s"
  by (simp add: toLowerCase_def toLowerCase_char_idem)

lemma relevance_empty: "evaluateRelevance [] = Low"
  by code_simp

lemma relevance_lowCast: "evaluateRelevance ''Good morning'' = Low"
  by code_simp

lemma relevance_highCast: "evaluateRelevance ''New DeFi protocol'' = High"
  by code_simp

lemma relevance_staleCast: "evaluateRelevance ''Ethereum DeFi news'' = High"
  by code_simp

subsection \<open>Sorting\<close>

lemma set_insertBy: "set (insertBy compareFn x ys) = insert x (set ys)"
  by (induction ys) auto

lemma sorted_insertBy:
  "sorted_wrt (\<lambda>a b. timestamp b \<le> timestamp a) ys \<Longrightarrow>
   sorted_wrt (\<lambda>a b. timestamp b \<le> timestamp a) (insertBy byTimestampDesc x ys)"
  by (induction ys) (auto simp: set_insertBy byTimestampDesc_def)

lemma sorted_arraySort:
  "sorted_wrt (\<lambda>a b. timestamp b \<le> timestamp a) (arraySort byTimestampDesc xs)"
  by (induction xs) (simp_all add: arraySort_def sorted_insertBy)

lemma sorted_slice0:
  "sorted_wrt (\<lambda>a b. timestamp b \<le> timestamp a) xs \<Longrightarrow>
   sorted_wrt (\<lambda>a b. timestamp b \<le> timestamp a) (slice0 xs end_index)"
  by (simp add: slice0_def sorted_wrt_take)

lemma length_slice0: "0 \<le> end_index \<Longrightarrow> int (length (slice0 xs end_index)) \<le> end_index"
  by (simp add: slice0_def)

lemma getMentions_cases:
  "getMentions hub f limit = [] \<or>
   (\<exists>casts. getMentions hub f limit = slice0 (arraySort byTimestampDesc casts) limit)"
  by (auto simp: getMentions_def split: http_reply.splits json_body.splits promise.splits)

section \<open>Properties\<close>

subsection \<open>Order of dispatch and commit\<close>

text \<open>
  C1, as the code has it. In both lanes a like is dispatched first and committed afterwards:
  at every call of the hub in the event list of a run, the hash is not yet in the lane's
  dedup set and the lane's counter is below its cap, and the dedup insert and the counter
  increment are the next two events, after the awaited call has returned. Replaying the
  event list from the starting ledger gives the ledger the run ends in, so the event list
  is the whole effect of the run.
\<close>

theorem dispatch_precedes_commit:
  "committed_after_dispatch MentionLane cfg (snd (respondToMentions cfg mentions))
   \<and> committed_after_dispatch ChannelLane cfg (snd (scanChannelsForCasts cfg casts))
   \<and> replay cfg (snd (respondToMentions cfg mentions)) = fst (respondToMentions cfg mentions)
   \<and> replay cfg (snd (scanChannelsForCasts cfg casts)) = fst (scanChannelsForCasts cfg casts)"
  by (simp add: respondToMentions_committed_after scanChannelsForCasts_committed_after
      respondToMentions_replay scanChannelsForCasts_replay)

text \<open>
  The statement at two runs that each dispatch one like.
\<close>

theorem dispatch_precedes_commit_witness:
  "snd (respondToMentions exampleConfig [(freshMention, hubUp)])
     = [HubLike 11 ''0xaa01'', AddReplied ''0xaa01'', IncReplies]
   \<and> committed_after_dispatch MentionLane exampleConfig
       [HubLike 11 ''0xaa01'', AddReplied ''0xaa01'', IncReplies]
   \<and> snd (scanChannelsForCasts exampleConfig [(highCast, hubUp)])
     = [HubLike 15 ''0xdd01'', AddLiked ''0xdd01'', IncLikes]
   \<and> committed_after_dispatch ChannelLane exampleConfig
       [HubLike 15 ''0xdd01'', AddLiked ''0xdd01'', IncLikes]"
proof -
  have m: "snd (respondToMentions exampleConfig [(freshMention, hubUp)])
     = [HubLike 11 ''0xaa01'', AddReplied ''0xaa01'', IncReplies]"
    by (simp add: example_defs respondToMentions_body_eq)
  have s: "snd (scanChannelsForCasts exampleConfig [(highCast, hubUp)])
     = [HubLike 15 ''0xdd01'', AddLiked ''0xdd01'', IncLikes]"
    by (simp add: example_defs scanChannelsForCasts_body_eq relevance_highCast)
  show ?thesis
    using dispatch_precedes_commit [where cfg = exampleConfig
        and mentions = "[(freshMention, hubUp)]" and casts = "[(highCast, hubUp)]"]
    by (simp only: m s simp_thms)
qed

text \<open>
  The ordering the claim words, reservation before dispatch, fails in both lanes on a run
  over one fresh item: the hub is called while the dedup set is still empty.
\<close>

theorem reservation_before_dispatch_counterexample:
  "\<not> reserved_before_dispatch MentionLane exampleConfig
       (snd (respondToMentions exampleConfig [(freshMention, hubUp)]))
   \<and> \<not> reserved_before_dispatch ChannelLane exampleConfig
       (snd (scanChannelsForCasts exampleConfig [(highCast, hubUp)]))"
  by (simp add: example_defs respondToMentions_body_eq scanChannelsForCasts_body_eq
      relevance_highCast)

subsection \<open>Epoch conversion\<close>

text \<open>
  C2, as the code has it. For every integer \<open>t\<close> of magnitude at most
  \<open>2^53 - 1609459200\<close>, negative ones included, the code's \<open>farcasterToUnix\<close> returns
  \<open>t + 1609459200\<close> and the two conversions are inverse to each other in both directions;
  on that range they are the exact sum and difference.
\<close>

theorem epoch_round_trip_exact_range:
  "(\<bar>t\<bar> \<le> 2 ^ 53 - 1609459200 \<longrightarrow>
      farcasterToUnix_f64 t = t + 1609459200
      \<and> unixToFarcaster_f64 (farcasterToUnix_f64 t) = t
      \<and> farcasterToUnix_f64 (unixToFarcaster_f64 t) = t
      \<and> farcasterToUnix_f64 t = farcasterToUnix t
      \<and> unixToFarcaster_f64 t = unixToFarcaster t)
   \<and> farcasterToUnix_f64 0 = 1609459200"
proof -
  have in_range: "farcasterToUnix_f64 t = t + 1609459200
      \<and> unixToFarcaster_f64 (farcasterToUnix_f64 t) = t
      \<and> farcasterToUnix_f64 (unixToFarcaster_f64 t) = t
      \<and> farcasterToUnix_f64 t = farcasterToUnix t
      \<and> unixToFarcaster_f64 t = unixToFarcaster t"
    if "\<bar>t\<bar> \<le> 2 ^ 53 - 1609459200"
  proof -
    from that have a: "\<bar>t\<bar> \<le> 9007197645281792"
      by simp
    have up: "roundToDouble (t + 1609459200) = t + 1609459200"
      using a by (intro roundToDouble_exact) linarith
    have down: "roundToDouble (t - 1609459200) = t - 1609459200"
      using a by (intro roundToDouble_exact) linarith
    have self: "roundToDouble t = t"
      using a by (intro roundToDouble_exact) linarith
    show ?thesis
      by (simp add: farcasterToUnix_f64_def unixToFarcaster_f64_def farcasterToUnix_def
          unixToFarcaster_def FARCASTER_EPOCH_def up down self)
  qed
  have zero: "farcasterToUnix_f64 0 = 1609459200"
    by (simp add: farcasterToUnix_f64_def FARCASTER_EPOCH_def roundToDouble_small)
  show ?thesis
    using in_range zero by blast
qed

text \<open>The statement at \<open>- 5\<close> and at 0.\<close>

theorem epoch_round_trip_exact_range_witness:
  "\<bar>- 5 :: int\<bar> \<le> 2 ^ 53 - 1609459200 \<and> farcasterToUnix_f64 (- 5) = 1609459195
   \<and> unixToFarcaster_f64 (farcasterToUnix_f64 (- 5)) = - 5
   \<and> farcasterToUnix_f64 (unixToFarcaster_f64 (- 5)) = - 5
   \<and> farcasterToUnix_f64 0 = 1609459200"
proof -
  have m: "\<bar>- 5 :: int\<bar> \<le> 2 ^ 53 - 1609459200"
    by simp
  note at_m = epoch_round_trip_exact_range [of "- 5", THEN conjunct1, THEN mp, OF m]
  have b: "farcasterToUnix_f64 (- 5) = 1609459195"
    using at_m [THEN conjunct1] by simp
  have c: "unixToFarcaster_f64 (farcasterToUnix_f64 (- 5)) = - 5"
    by (rule at_m [THEN conjunct2, THEN conjunct1])
  have d: "farcasterToUnix_f64 (unixToFarcaster_f64 (- 5)) = - 5"
    by (rule at_m [THEN conjunct2, THEN conjunct2, THEN conjunct1])
  have z: "farcasterToUnix_f64 0 = 1609459200"
    by (rule epoch_round_trip_exact_range [of 0, THEN conjunct2])
  show ?thesis
    by (intro conjI m b c d z)
qed

text \<open>
  Beyond that range the claim as worded fails: \<open>2^53 - 1\<close> is a double, its sum with the
  epoch constant is odd and above \<open>2^53\<close>, so the code returns the even neighbour, and the
  way back ends at \<open>2^53\<close>; the mirror image holds at \<open>- (2^53 - 1)\<close>.
\<close>

theorem epoch_round_trip_counterexample:
  "roundToDouble 9007199254740991 = 9007199254740991
   \<and> farcasterToUnix_f64 9007199254740991 = 9007200864200192
   \<and> farcasterToUnix_f64 9007199254740991 \<noteq> 9007199254740991 + 1609459200
   \<and> unixToFarcaster_f64 (farcasterToUnix_f64 9007199254740991) = 9007199254740992
   \<and> unixToFarcaster_f64 (farcasterToUnix_f64 9007199254740991) \<noteq> 9007199254740991
   \<and> roundToDouble (- 9007199254740991) = - 9007199254740991
   \<and> farcasterToUnix_f64 (unixToFarcaster_f64 (- 9007199254740991)) = - 9007199254740992"
  by code_simp

subsection \<open>Stale items\<close>

text \<open>
  C3. An item whose converted age exceeds \<open>maxCastAge\<close> ends its iteration, in either
  lane, with the ledger unchanged and no event, so no like is dispatched for it; and a run
  over a batch is the same run, ledger and events, as over the batch with its stale items
  removed. In particular, with a maximum age of 14 days, a channel item stamped 20 days
  before the clock reading is passed over without an event.
\<close>

theorem stale_items_untouched:
  "(castAge (now_ms tk) cast > of_int (maxCastAge cfg) \<longrightarrow>
      snd (respondToMentions_body cfg cast tk) = (cfg, [])
      \<and> snd (scanChannelsForCasts_body cfg cast tk) = (cfg, []))
   \<and> respondToMentions cfg
        (filter (\<lambda>(c, t). \<not> castAge (now_ms t) c > of_int (maxCastAge cfg)) items)
       = respondToMentions cfg items
   \<and> scanChannelsForCasts cfg
        (filter (\<lambda>(c, t). \<not> castAge (now_ms t) c > of_int (maxCastAge cfg)) items)
       = scanChannelsForCasts cfg items
   \<and> (maxCastAge cfg = 14 * 86400 \<and> timestamp cast = unixToFarcaster (now - 20 * 86400)
        \<and> now_ms tk = 1000 * now \<longrightarrow>
      scanChannelsForCasts_body cfg cast tk
        = (if dailyLikes cfg \<ge> maxDailyLikes cfg then Break else Continue, cfg, []))"
proof -
  have a: "castAge (now_ms tk) cast > of_int (maxCastAge cfg) \<Longrightarrow>
      snd (respondToMentions_body cfg cast tk) = (cfg, [])
      \<and> snd (scanChannelsForCasts_body cfg cast tk) = (cfg, [])"
    by (simp add: respondToMentions_body_eq scanChannelsForCasts_body_eq)
  have b: "maxCastAge cfg = 14 * 86400 \<and> timestamp cast = unixToFarcaster (now - 20 * 86400)
        \<and> now_ms tk = 1000 * now \<Longrightarrow>
      scanChannelsForCasts_body cfg cast tk
        = (if dailyLikes cfg \<ge> maxDailyLikes cfg then Break else Continue, cfg, [])"
    using twenty_days_stale [of cfg cast now tk]
    by (simp add: scanChannelsForCasts_body_eq)
  show ?thesis
    using a b respondToMentions_drop_stale [of cfg "maxCastAge cfg" items]
      scanChannelsForCasts_drop_stale [of cfg "maxCastAge cfg" items]
    by blast
qed

text \<open>
  The statement at a cast stamped 20 days back that the classifier would rate high.
\<close>

theorem stale_items_untouched_witness:
  "castAge (now_ms hubUp) staleCast = 20 * 86400
   \<and> castAge (now_ms hubUp) staleCast > of_int (maxCastAge exampleConfig)
   \<and> evaluateRelevance (text staleCast) = High
   \<and> snd (respondToMentions_body exampleConfig staleCast hubUp) = (exampleConfig, [])
   \<and> snd (scanChannelsForCasts_body exampleConfig staleCast hubUp) = (exampleConfig, [])
   \<and> respondToMentions exampleConfig [(staleCast, hubUp)] = (exampleConfig, [])
   \<and> scanChannelsForCasts exampleConfig [(staleCast, hubUp)] = (exampleConfig, [])"
proof -
  have age: "castAge (now_ms hubUp) staleCast = 20 * 86400"
    by (simp add: example_defs)
  have old: "castAge (now_ms hubUp) staleCast > of_int (maxCastAge exampleConfig)"
    by (simp add: example_defs)
  have rel: "evaluateRelevance (text staleCast) = High"
    by (simp add: staleCast_def relevance_staleCast)
  have flt: "filter (\<lambda>(c, t). \<not> castAge (now_ms t) c > of_int (maxCastAge exampleConfig))
      [(staleCast, hubUp)] = []"
    using old by simp
  note inst = stale_items_untouched [where tk = hubUp and cast = staleCast
      and cfg = exampleConfig and items = "[(staleCast, hubUp)]" and now = 1700000000]
  have body: "snd (respondToMentions_body exampleConfig staleCast hubUp) = (exampleConfig, [])
      \<and> snd (scanChannelsForCasts_body exampleConfig staleCast hubUp) = (exampleConfig, [])"
    using inst old by blast
  have "respondToMentions exampleConfig
      (filter (\<lambda>(c, t). \<not> castAge (now_ms t) c > of_int (maxCastAge exampleConfig))
        [(staleCast, hubUp)]) = respondToMentions exampleConfig [(staleCast, hubUp)]"
    using inst by blast
  then have m: "respondToMentions exampleConfig [(staleCast, hubUp)] = (exampleConfig, [])"
    by (simp only: flt respondToMentions.simps(1))
  have "scanChannelsForCasts exampleConfig
      (filter (\<lambda>(c, t). \<not> castAge (now_ms t) c > of_int (maxCastAge exampleConfig))
        [(staleCast, hubUp)]) = scanChannelsForCasts exampleConfig [(staleCast, hubUp)]"
    using inst by blast
  then have s: "scanChannelsForCasts exampleConfig [(staleCast, hubUp)] = (exampleConfig, [])"
    by (simp only: flt scanChannelsForCasts.simps(1))
  show ?thesis
    using age old rel body m s by blast
qed

subsection \<open>Low relevance in the channel lane\<close>

text \<open>
  C4, as the code has it. In the channel lane the classifier runs before anything is
  reserved. An item is dispatched and then committed exactly when it is met below the like
  cap, is not self-authored, not yet liked and fresh, and is classified high or medium; any
  other item, one classified low among them, ends its iteration with the ledger unchanged
  and no event. A run over a batch is the same run as over the batch with its low items
  removed.
\<close>

theorem low_items_consume_nothing:
  "(dailyLikes cfg \<ge> maxDailyLikes cfg \<or> HubCast.fid cast = LocalHubConfig.fid cfg
       \<or> hash cast \<in> likedHashes cfg
       \<or> castAge (now_ms tk) cast > of_int (maxCastAge cfg)
       \<or> evaluateRelevance (text cast) = Low \<longrightarrow>
      snd (scanChannelsForCasts_body cfg cast tk) = (cfg, []))
   \<and> (dailyLikes cfg < maxDailyLikes cfg \<and> HubCast.fid cast \<noteq> LocalHubConfig.fid cfg
       \<and> hash cast \<notin> likedHashes cfg
       \<and> \<not> castAge (now_ms tk) cast > of_int (maxCastAge cfg)
       \<and> evaluateRelevance (text cast) \<noteq> Low \<longrightarrow>
      scanChannelsForCasts_body cfg cast tk =
        (Continue,
         cfg\<lparr>likedHashes := insert (hash cast) (likedHashes cfg),
           dailyLikes := dailyLikes cfg + 1\<rparr>,
         (if dryRun cfg then [] else [HubLike (HubCast.fid cast) (hash cast)])
           @ [AddLiked (hash cast), IncLikes]))
   \<and> scanChannelsForCasts cfg
        (filter (\<lambda>(c, t). evaluateRelevance (text c) \<noteq> Low) items)
       = scanChannelsForCasts cfg items"
proof -
  have skip: "dailyLikes cfg \<ge> maxDailyLikes cfg \<or> HubCast.fid cast = LocalHubConfig.fid cfg
       \<or> hash cast \<in> likedHashes cfg
       \<or> castAge (now_ms tk) cast > of_int (maxCastAge cfg)
       \<or> evaluateRelevance (text cast) = Low \<Longrightarrow>
      snd (scanChannelsForCasts_body cfg cast tk) = (cfg, [])"
    by (auto simp: scanChannelsForCasts_body_eq)
  have like: "dailyLikes cfg < maxDailyLikes cfg \<and> HubCast.fid cast \<noteq> LocalHubConfig.fid cfg
       \<and> hash cast \<notin> likedHashes cfg
       \<and> \<not> castAge (now_ms tk) cast > of_int (maxCastAge cfg)
       \<and> evaluateRelevance (text cast) \<noteq> Low \<Longrightarrow>
      scanChannelsForCasts_body cfg cast tk =
        (Continue,
         cfg\<lparr>likedHashes := insert (hash cast) (likedHashes cfg),
           dailyLikes := dailyLikes cfg + 1\<rparr>,
         (if dryRun cfg then [] else [HubLike (HubCast.fid cast) (hash cast)])
           @ [AddLiked (hash cast), IncLikes])"
    by (simp add: scanChannelsForCasts_body_eq)
  show ?thesis
    using skip like scanChannelsForCasts_drop_low [of cfg items] by blast
qed

text \<open>
  The statement at a low cast, at a high cast of the configured account itself, at a high
  cast already liked, at a stale high cast, and at a high cast that passes every check.
\<close>

theorem low_items_consume_nothing_witness:
  "evaluateRelevance (text lowCast) = Low
   \<and> snd (scanChannelsForCasts_body exampleConfig lowCast hubUp) = (exampleConfig, [])
   \<and> HubCast.fid selfCast = LocalHubConfig.fid exampleConfig
   \<and> evaluateRelevance (text selfCast) = High
   \<and> snd (scanChannelsForCasts_body exampleConfig selfCast hubUp) = (exampleConfig, [])
   \<and> hash highCast \<in> likedHashes yesterdayConfig
   \<and> snd (scanChannelsForCasts_body yesterdayConfig highCast hubUp) = (yesterdayConfig, [])
   \<and> castAge (now_ms hubUp) staleCast > of_int (maxCastAge exampleConfig)
   \<and> snd (scanChannelsForCasts_body exampleConfig staleCast hubUp) = (exampleConfig, [])
   \<and> dailyLikes exampleConfig < maxDailyLikes exampleConfig
   \<and> HubCast.fid highCast \<noteq> LocalHubConfig.fid exampleConfig
   \<and> hash highCast \<notin> likedHashes exampleConfig
   \<and> \<not> castAge (now_ms hubUp) highCast > of_int (maxCastAge exampleConfig)
   \<and> evaluateRelevance (text highCast) \<noteq> Low
   \<and> scanChannelsForCasts_body exampleConfig highCast hubUp =
        (Continue, exampleConfig\<lparr>likedHashes := {''0xdd01''}, dailyLikes := 1\<rparr>,
         [HubLike 15 ''0xdd01'', AddLiked ''0xdd01'', IncLikes])
   \<and> scanChannelsForCasts exampleConfig [(highCast, hubUp)]
       = scanChannelsForCasts exampleConfig [(lowCast, hubUp), (highCast, hubUp)]"
proof -
  have l: "evaluateRelevance (text lowCast) = Low"
    by (simp add: lowCast_def relevance_lowCast)
  have h: "evaluateRelevance (text highCast) \<noteq> Low"
    by (simp add: highCast_def relevance_highCast)
  have sf: "HubCast.fid selfCast = LocalHubConfig.fid exampleConfig"
    by (simp add: example_defs)
  have sr: "evaluateRelevance (text selfCast) = High"
    by (simp add: selfCast_def relevance_highCast)
  have lk: "hash highCast \<in> likedHashes yesterdayConfig"
    by (simp add: yesterdayConfig_def example_defs)
  have st: "castAge (now_ms hubUp) staleCast > of_int (maxCastAge exampleConfig)"
    by (simp add: example_defs)
  have g1: "dailyLikes exampleConfig < maxDailyLikes exampleConfig"
    by (simp add: example_defs)
  have g2: "HubCast.fid highCast \<noteq> LocalHubConfig.fid exampleConfig"
    by (simp add: example_defs)
  have g3: "hash highCast \<notin> likedHashes exampleConfig"
    by (simp add: example_defs)
  have g4: "\<not> castAge (now_ms hubUp) highCast > of_int (maxCastAge exampleConfig)"
    by (simp add: example_defs)
  have v: "\<not> dryRun exampleConfig" "hash highCast = ''0xdd01''" "HubCast.fid highCast = 15"
    "likedHashes exampleConfig = {}" "dailyLikes exampleConfig = 0"
    by (simp_all add: example_defs)
  have f: "filter (\<lambda>(c, t). evaluateRelevance (text c) \<noteq> Low)
      [(lowCast, hubUp), (highCast, hubUp)] = [(highCast, hubUp)]"
    using l h by simp
  note low_at = low_items_consume_nothing [where cast = lowCast and cfg = exampleConfig
      and tk = hubUp and items = "[(lowCast, hubUp), (highCast, hubUp)]"]
  note self_at = low_items_consume_nothing [where cast = selfCast and cfg = exampleConfig
      and tk = hubUp and items = "[]"]
  note liked_at = low_items_consume_nothing [where cast = highCast and cfg = yesterdayConfig
      and tk = hubUp and items = "[]"]
  note stale_at = low_items_consume_nothing [where cast = staleCast and cfg = exampleConfig
      and tk = hubUp and items = "[]"]
  note high_at = low_items_consume_nothing [where cast = highCast and cfg = exampleConfig
      and tk = hubUp and items = "[]"]
  have a1: "snd (scanChannelsForCasts_body exampleConfig lowCast hubUp) = (exampleConfig, [])"
    using low_at [THEN conjunct1] l by simp
  have a2: "snd (scanChannelsForCasts_body exampleConfig selfCast hubUp) = (exampleConfig, [])"
    using self_at [THEN conjunct1] sf by simp
  have a3: "snd (scanChannelsForCasts_body yesterdayConfig highCast hubUp) = (yesterdayConfig, [])"
    using liked_at [THEN conjunct1] lk by simp
  have a4: "snd (scanChannelsForCasts_body exampleConfig staleCast hubUp) = (exampleConfig, [])"
    using stale_at [THEN conjunct1] st by simp
  have b: "scanChannelsForCasts_body exampleConfig highCast hubUp =
        (Continue, exampleConfig\<lparr>likedHashes := {''0xdd01''}, dailyLikes := 1\<rparr>,
         [HubLike 15 ''0xdd01'', AddLiked ''0xdd01'', IncLikes])"
    using high_at [THEN conjunct2, THEN conjunct1] g1 g2 g3 g4 h by (simp add: v)
  have c: "scanChannelsForCasts exampleConfig [(highCast, hubUp)]
       = scanChannelsForCasts exampleConfig [(lowCast, hubUp), (highCast, hubUp)]"
    using low_at [THEN conjunct2, THEN conjunct2] by (simp only: f)
  show ?thesis
    by (intro conjI l a1 sf sr a2 lk a3 st a4 g1 g2 g3 g4 h b c)
qed

text \<open>
  The claim as worded fails: a fresh cast of another author, not yet liked, below the cap
  and classified low, leaves the like counter and the liked set as they were.
\<close>

theorem low_item_reservation_counterexample:
  "dailyLikes exampleConfig < maxDailyLikes exampleConfig
   \<and> HubCast.fid lowCast \<noteq> LocalHubConfig.fid exampleConfig
   \<and> hash lowCast \<notin> likedHashes exampleConfig
   \<and> \<not> castAge (now_ms hubUp) lowCast > of_int (maxCastAge exampleConfig)
   \<and> evaluateRelevance (text lowCast) = Low
   \<and> hash lowCast \<notin> likedHashes (fst (scanChannelsForCasts exampleConfig [(lowCast, hubUp)]))
   \<and> dailyLikes (fst (scanChannelsForCasts exampleConfig [(lowCast, hubUp)]))
       = dailyLikes exampleConfig"
  by (simp add: example_defs scanChannelsForCasts_body_eq relevance_lowCast)

subsection \<open>The reply cap\<close>

text \<open>
  C5. With a reply cap of 1, a reply counter at 0 and dry-run off, a batch that starts
  with two fresh, unseen mentions from other authors dispatches exactly one like, for the
  first mention, and ends with the reply counter at 1, whatever follows in the batch. The
  second mention, when its hash differs from the first, meets the cap check and breaks
  the loop.
\<close>

theorem reply_cap_one_dispatches_once:
  assumes "maxDailyReplies cfg = 1" and "dailyReplies cfg = 0" and "\<not> dryRun cfg"
    and "hash m1 \<notin> repliedToHashes cfg" and "hash m2 \<notin> repliedToHashes cfg"
    and "HubCast.fid m1 \<noteq> LocalHubConfig.fid cfg" and "HubCast.fid m2 \<noteq> LocalHubConfig.fid cfg"
    and "\<not> castAge (now_ms t1) m1 > of_int (maxCastAge cfg)"
    and "\<not> castAge (now_ms t2) m2 > of_int (maxCastAge cfg)"
  shows "respondToMentions cfg ((m1, t1) # (m2, t2) # others) =
           (cfg\<lparr>repliedToHashes := insert (hash m1) (repliedToHashes cfg), dailyReplies := 1\<rparr>,
            [HubLike (HubCast.fid m1) (hash m1), AddReplied (hash m1), IncReplies])
         \<and> (hash m2 \<noteq> hash m1 \<longrightarrow>
              respondToMentions_body
                (cfg\<lparr>repliedToHashes := insert (hash m1) (repliedToHashes cfg),
                   dailyReplies := 1\<rparr>) m2 t2
              = (Break,
                 cfg\<lparr>repliedToHashes := insert (hash m1) (repliedToHashes cfg),
                   dailyReplies := 1\<rparr>, []))"
proof -
  let ?cfg' = "cfg\<lparr>repliedToHashes := insert (hash m1) (repliedToHashes cfg), dailyReplies := 1\<rparr>"
  have first: "respondToMentions_body cfg m1 t1 =
      (Continue, ?cfg', [HubLike (HubCast.fid m1) (hash m1), AddReplied (hash m1), IncReplies])"
    using assms by (simp add: respondToMentions_body_eq)
  have "dailyReplies ?cfg' \<ge> maxDailyReplies ?cfg'"
    using assms by simp
  then have rest: "respondToMentions ?cfg' ((m2, t2) # others) = (?cfg', [])"
    by (rule respondToMentions_at_cap)
  have loop: "respondToMentions cfg ((m1, t1) # (m2, t2) # others) =
      (?cfg', [HubLike (HubCast.fid m1) (hash m1), AddReplied (hash m1), IncReplies])"
    by (simp only: respondToMentions.simps(2) [of cfg m1 t1] first rest prod.case ctl.case
        append_Nil2)
  have break: "hash m2 \<noteq> hash m1 \<Longrightarrow> respondToMentions_body ?cfg' m2 t2 = (Break, ?cfg', [])"
    using assms by (simp add: respondToMentions_body_eq)
  show ?thesis
    using loop break by blast
qed

text \<open>
  The statement at two mentions, one day and one hour old.
\<close>

theorem reply_cap_one_dispatches_once_witness:
  "maxDailyReplies exampleConfig = 1 \<and> dailyReplies exampleConfig = 0 \<and> \<not> dryRun exampleConfig
   \<and> hash freshMention \<notin> repliedToHashes exampleConfig
   \<and> hash secondMention \<notin> repliedToHashes exampleConfig
   \<and> HubCast.fid freshMention \<noteq> LocalHubConfig.fid exampleConfig
   \<and> HubCast.fid secondMention \<noteq> LocalHubConfig.fid exampleConfig
   \<and> castAge (now_ms hubUp) freshMention = 86400
   \<and> \<not> castAge (now_ms hubUp) freshMention > of_int (maxCastAge exampleConfig)
   \<and> \<not> castAge (now_ms hubUp) secondMention > of_int (maxCastAge exampleConfig)
   \<and> hash secondMention \<noteq> hash freshMention
   \<and> respondToMentions exampleConfig [(freshMention, hubUp), (secondMention, hubUp)] =
        (exampleConfig\<lparr>repliedToHashes := {''0xaa01''}, dailyReplies := 1\<rparr>,
         [HubLike 11 ''0xaa01'', AddReplied ''0xaa01'', IncReplies])
   \<and> respondToMentions_body (exampleConfig\<lparr>repliedToHashes := {''0xaa01''}, dailyReplies := 1\<rparr>)
        secondMention hubUp
       = (Break, exampleConfig\<lparr>repliedToHashes := {''0xaa01''}, dailyReplies := 1\<rparr>, [])"
proof -
  have h: "maxDailyReplies exampleConfig = 1" "dailyReplies exampleConfig = 0"
    "\<not> dryRun exampleConfig"
    "hash freshMention \<notin> repliedToHashes exampleConfig"
    "hash secondMention \<notin> repliedToHashes exampleConfig"
    "HubCast.fid freshMention \<noteq> LocalHubConfig.fid exampleConfig"
    "HubCast.fid secondMention \<noteq> LocalHubConfig.fid exampleConfig"
    "\<not> castAge (now_ms hubUp) freshMention > of_int (maxCastAge exampleConfig)"
    "\<not> castAge (now_ms hubUp) secondMention > of_int (maxCastAge exampleConfig)"
    by (simp_all add: example_defs)
  have v: "castAge (now_ms hubUp) freshMention = 86400" "hash secondMention \<noteq> hash freshMention"
    "hash freshMention = ''0xaa01''" "HubCast.fid freshMention = 11"
    "repliedToHashes exampleConfig = {}"
    by (simp_all add: example_defs)
  show ?thesis
    using reply_cap_one_dispatches_once [OF h, where others = "[]"] h v by simp
qed

subsection \<open>The daily reset\<close>

text \<open>
  C6. The reset runs exactly when the stored day label differs from the current date. It
  then sets the three daily counters to 0, empties both dedup sets and stores the current
  date, and otherwise leaves the ledger alone; a check repeated at once on the same date
  resets nothing.
\<close>

theorem daily_reset_when_label_differs:
  "(snd (resetDailyCountersIfNeeded today cfg) = [DailyReset today] \<longleftrightarrow> lastResetDate cfg \<noteq> today)
   \<and> (snd (resetDailyCountersIfNeeded today cfg) = [] \<longleftrightarrow> lastResetDate cfg = today)
   \<and> (lastResetDate cfg \<noteq> today \<longrightarrow>
        dailyReplies (fst (resetDailyCountersIfNeeded today cfg)) = 0
        \<and> dailyLikes (fst (resetDailyCountersIfNeeded today cfg)) = 0
        \<and> dailyPosts (fst (resetDailyCountersIfNeeded today cfg)) = 0
        \<and> repliedToHashes (fst (resetDailyCountersIfNeeded today cfg)) = {}
        \<and> likedHashes (fst (resetDailyCountersIfNeeded today cfg)) = {}
        \<and> lastResetDate (fst (resetDailyCountersIfNeeded today cfg)) = today)
   \<and> (lastResetDate cfg = today \<longrightarrow> fst (resetDailyCountersIfNeeded today cfg) = cfg)
   \<and> resetDailyCountersIfNeeded today (fst (resetDailyCountersIfNeeded today cfg))
       = (fst (resetDailyCountersIfNeeded today cfg), [])"
  by (simp add: resetDailyCountersIfNeeded_def)

text \<open>
  The statement at a ledger last reset the day before.
\<close>

theorem daily_reset_when_label_differs_witness:
  "lastResetDate yesterdayConfig \<noteq> ''Tue Nov 14 2023''
   \<and> dailyReplies yesterdayConfig = 1 \<and> likedHashes yesterdayConfig = {''0xdd01''}
   \<and> resetDailyCountersIfNeeded ''Tue Nov 14 2023'' yesterdayConfig
       = (exampleConfig, [DailyReset ''Tue Nov 14 2023''])
   \<and> lastResetDate exampleConfig = ''Tue Nov 14 2023''
   \<and> resetDailyCountersIfNeeded ''Tue Nov 14 2023'' exampleConfig = (exampleConfig, [])"
proof -
  have y: "lastResetDate yesterdayConfig \<noteq> ''Tue Nov 14 2023''"
    "dailyReplies yesterdayConfig = 1" "likedHashes yesterdayConfig = {''0xdd01''}"
    by (simp_all add: yesterdayConfig_def exampleConfig_def)
  have t: "lastResetDate exampleConfig = ''Tue Nov 14 2023''"
    by (simp add: exampleConfig_def)
  have r: "fst (resetDailyCountersIfNeeded ''Tue Nov 14 2023'' yesterdayConfig) = exampleConfig"
    by (simp add: resetDailyCountersIfNeeded_def yesterdayConfig_def exampleConfig_def)
  note first = daily_reset_when_label_differs [of "''Tue Nov 14 2023''" yesterdayConfig]
  have a: "snd (resetDailyCountersIfNeeded ''Tue Nov 14 2023'' yesterdayConfig)
      = [DailyReset ''Tue Nov 14 2023'']"
    using first y(1) by blast
  have b: "resetDailyCountersIfNeeded ''Tue Nov 14 2023'' exampleConfig = (exampleConfig, [])"
    using first by (simp only: r)
  have c: "resetDailyCountersIfNeeded ''Tue Nov 14 2023'' yesterdayConfig
       = (exampleConfig, [DailyReset ''Tue Nov 14 2023''])"
    using a r by (simp add: prod_eq_iff)
  show ?thesis
    using y t b c by blast
qed

subsection \<open>Relevance tiers\<close>

text \<open>
  C7. \<open>evaluateRelevance\<close> computes the classification the specification words: on the
  case-folded text, high if at least one high-tier keyword occurs in it, whatever the
  medium-tier matches; otherwise medium if at least two distinct medium-tier keywords occur;
  otherwise low, so a single medium-tier match without a high-tier one is low. Folding the
  case beforehand changes nothing, and the empty text is low. As a function of the text
  alone it is total and deterministic.
\<close>

theorem evaluateRelevance_tiers:
  "evaluateRelevance txt = relevance_spec txt
   \<and> ((\<exists>kw \<in> set highKeywords. includes_str (toLowerCase txt) kw) \<longrightarrow>
        evaluateRelevance txt = High)
   \<and> (\<not> (\<exists>kw \<in> set highKeywords. includes_str (toLowerCase txt) kw)
       \<and> 2 \<le> card {kw \<in> set mediumKeywords. includes_str (toLowerCase txt) kw} \<longrightarrow>
        evaluateRelevance txt = Medium)
   \<and> (\<not> (\<exists>kw \<in> set highKeywords. includes_str (toLowerCase txt) kw)
       \<and> card {kw \<in> set mediumKeywords. includes_str (toLowerCase txt) kw} \<le> 1 \<longrightarrow>
        evaluateRelevance txt = Low)
   \<and> evaluateRelevance (toLowerCase txt) = evaluateRelevance txt
   \<and> evaluateRelevance [] = Low"
proof -
  have fold: "evaluateRelevance (toLowerCase txt) = evaluateRelevance txt"
    by (simp add: evaluateRelevance_def toLowerCase_idem)
  show ?thesis
    using fold relevance_empty
    by (simp add: evaluateRelevance_spec relevance_spec_def Let_def)
qed

text \<open>
  The statement at a text with one high-tier and four medium-tier matches, at one with two
  medium-tier matches and at one with a single medium-tier match.
\<close>

theorem evaluateRelevance_tiers_witness:
  "(\<exists>kw \<in> set highKeywords.
       includes_str (toLowerCase ''Ethereum airdrop: vote on the treasury proposal'') kw)
   \<and> 2 \<le> card {kw \<in> set mediumKeywords.
       includes_str (toLowerCase ''Ethereum airdrop: vote on the treasury proposal'') kw}
   \<and> evaluateRelevance ''Ethereum airdrop: vote on the treasury proposal'' = High
   \<and> \<not> (\<exists>kw \<in> set highKeywords. includes_str (toLowerCase ''Vote on the Proposal'') kw)
   \<and> 2 \<le> card {kw \<in> set mediumKeywords. includes_str (toLowerCase ''Vote on the Proposal'') kw}
   \<and> evaluateRelevance ''Vote on the Proposal'' = Medium
   \<and> \<not> (\<exists>kw \<in> set highKeywords. includes_str (toLowerCase ''Please VOTE'') kw)
   \<and> card {kw \<in> set mediumKeywords. includes_str (toLowerCase ''Please VOTE'') kw} \<le> 1
   \<and> evaluateRelevance ''Please VOTE'' = Low"
proof -
  have h1: "\<exists>kw \<in> set highKeywords.
       includes_str (toLowerCase ''Ethereum airdrop: vote on the treasury proposal'') kw"
    by code_simp
  have m1: "2 \<le> card {kw \<in> set mediumKeywords.
       includes_str (toLowerCase ''Ethereum airdrop: vote on the treasury proposal'') kw}"
    by code_simp
  have h2: "\<not> (\<exists>kw \<in> set highKeywords. includes_str (toLowerCase ''Vote on the Proposal'') kw)"
    by code_simp
  have m2: "2 \<le> card {kw \<in> set mediumKeywords.
       includes_str (toLowerCase ''Vote on the Proposal'') kw}"
    by code_simp
  have h3: "\<not> (\<exists>kw \<in> set highKeywords. includes_str (toLowerCase ''Please VOTE'') kw)"
    by code_simp
  have m3: "card {kw \<in> set mediumKeywords. includes_str (toLowerCase ''Please VOTE'') kw} \<le> 1"
    by code_simp
  show ?thesis
    using h1 m1 h2 m2 h3 m3
      evaluateRelevance_tiers [of "''Ethereum airdrop: vote on the treasury proposal''"]
      evaluateRelevance_tiers [of "''Vote on the Proposal''"]
      evaluateRelevance_tiers [of "''Please VOTE''"]
    by blast
qed

subsection \<open>Fetching mentions\<close>

text \<open>
  C8, as the code has it. For every hub and account, \<open>getMentions\<close> returns casts ordered
  by timestamp, newest first, whatever the limit; for every limit that is not negative it
  returns no more of them than the limit; and when the request is rejected, answered with a
  non-ok status, or its body or one of its entries makes the processing throw, it returns
  the empty list.
\<close>

theorem getMentions_sorted_bounded:
  "sorted_wrt (\<lambda>a b. timestamp b \<le> timestamp a) (getMentions hub f limit)
   \<and> (0 \<le> limit \<longrightarrow> int (length (getMentions hub f limit)) \<le> limit)
   \<and> ((\<exists>error. hub f limit = FetchFailed error) \<longrightarrow> getMentions hub f limit = [])
   \<and> ((\<exists>body. hub f limit = Response False body) \<longrightarrow> getMentions hub f limit = [])
   \<and> ((\<exists>error. hub f limit = Response True (NotJson error)) \<longrightarrow> getMentions hub f limit = [])
   \<and> ((\<exists>messages. hub f limit = Response True (Body (Some messages))
         \<and> JsonNull \<in> set messages) \<longrightarrow> getMentions hub f limit = [])"
proof -
  have srt: "sorted_wrt (\<lambda>a b. timestamp b \<le> timestamp a) (getMentions hub f limit)"
    using getMentions_cases [of hub f limit]
    by (auto simp: sorted_slice0 sorted_arraySort)
  have len: "0 \<le> limit \<Longrightarrow> int (length (getMentions hub f limit)) \<le> limit"
    using getMentions_cases [of hub f limit] by (auto simp: length_slice0)
  have nul: "JsonNull \<in> set messages \<Longrightarrow> \<exists>e. collectCasts messages casts = Rejected e"
    for messages casts
    by (induction messages casts rule: collectCasts.induct) auto
  have bad: "hub f limit = Response True (Body (Some messages)) \<Longrightarrow> JsonNull \<in> set messages \<Longrightarrow>
      getMentions hub f limit = []" for messages
    using nul [of messages "[]"] by (auto simp: getMentions_def)
  show ?thesis
    using srt len bad by (auto simp: getMentions_def)
qed

text \<open>The statement at a hub that answers, and at each of its four ways to fail.\<close>

theorem getMentions_sorted_bounded_witness:
  "getMentions exampleHub 7 2 =
     [\<lparr>hash = ''0x02'', HubCast.fid = 12, text = ''gm'', timestamp = 300\<rparr>,
      \<lparr>hash = ''0x04'', HubCast.fid = 13, text = ''gm'', timestamp = 200\<rparr>]
   \<and> sorted_wrt (\<lambda>a b. timestamp b \<le> timestamp a) (getMentions exampleHub 7 2)
   \<and> (0 :: int) \<le> 2 \<and> int (length (getMentions exampleHub 7 2)) \<le> 2
   \<and> exampleHub 11 10 = FetchFailed ''ECONNREFUSED'' \<and> getMentions exampleHub 11 10 = []
   \<and> exampleHub 8 10 = Response False (Body None) \<and> getMentions exampleHub 8 10 = []
   \<and> exampleHub 9 10 = Response True (NotJson ''Unexpected token'')
   \<and> getMentions exampleHub 9 10 = []
   \<and> exampleHub 10 10 = Response True (Body (Some [castAdd ''0x01'' 11 100, JsonNull]))
   \<and> getMentions exampleHub 10 10 = []"
proof -
  have v: "getMentions exampleHub 7 2 =
     [\<lparr>hash = ''0x02'', HubCast.fid = 12, text = ''gm'', timestamp = 300\<rparr>,
      \<lparr>hash = ''0x04'', HubCast.fid = 13, text = ''gm'', timestamp = 200\<rparr>]"
    by code_simp
  have r1: "exampleHub 11 10 = FetchFailed ''ECONNREFUSED''"
    by (simp add: exampleHub_def)
  have r2: "exampleHub 8 10 = Response False (Body None)"
    by (simp add: exampleHub_def)
  have r3: "exampleHub 9 10 = Response True (NotJson ''Unexpected token'')"
    by (simp add: exampleHub_def)
  have r4: "exampleHub 10 10 = Response True (Body (Some [castAdd ''0x01'' 11 100, JsonNull]))"
    by (simp add: exampleHub_def)
  have n: "JsonNull \<in> set [castAdd ''0x01'' 11 100, JsonNull]"
    by simp
  have p: "(0 :: int) \<le> 2"
    by simp
  have a: "sorted_wrt (\<lambda>a b. timestamp b \<le> timestamp a) (getMentions exampleHub 7 2)"
    using getMentions_sorted_bounded [of exampleHub 7 2] by simp
  have b: "int (length (getMentions exampleHub 7 2)) \<le> 2"
    using getMentions_sorted_bounded [of exampleHub 7 2] p by simp
  have e1: "\<exists>error. exampleHub 11 10 = FetchFailed error"
    using r1 by (rule exI)
  have c1: "getMentions exampleHub 11 10 = []"
    using getMentions_sorted_bounded [of exampleHub 11 10] e1 by simp
  have e2: "\<exists>body. exampleHub 8 10 = Response False body"
    using r2 by (rule exI)
  have c2: "getMentions exampleHub 8 10 = []"
    using getMentions_sorted_bounded [of exampleHub 8 10] e2 by simp
  have e3: "\<exists>error. exampleHub 9 10 = Response True (NotJson error)"
    using r3 by (rule exI)
  have c3: "getMentions exampleHub 9 10 = []"
    using getMentions_sorted_bounded [of exampleHub 9 10] e3 by simp
  have e4: "\<exists>messages. exampleHub 10 10 = Response True (Body (Some messages))
      \<and> JsonNull \<in> set messages"
    using r4 n by (intro exI conjI)
  have c4: "getMentions exampleHub 10 10 = []"
    using getMentions_sorted_bounded [of exampleHub 10 10] e4 by simp
  show ?thesis
    by (intro conjI v a p b r1 c1 r2 c2 r3 c3 r4 c4)
qed

text \<open>
  For a negative limit the bound of the claim as worded fails: with a limit of \<open>- 1\<close> the
  hub's three casts come back without the oldest, two casts against a limit of \<open>- 1\<close>.
\<close>

theorem getMentions_limit_counterexample:
  "getMentions exampleHub 7 (- 1) =
     [\<lparr>hash = ''0x02'', HubCast.fid = 12, text = ''gm'', timestamp = 300\<rparr>,
      \<lparr>hash = ''0x04'', HubCast.fid = 13, text = ''gm'', timestamp = 200\<rparr>]
   \<and> \<not> int (length (getMentions exampleHub 7 (- 1))) \<le> - 1"
  by code_simp

subsection \<open>Failed dispatches\<close>

text \<open>
  C9. \<open>likeCast\<close> is fulfilled however the hub settles. In both lanes an item that
  reaches the dispatch with dry-run off and a hub that rejects is committed all the same:
  the iteration ends with the hash in the lane's dedup set and the counter one higher,
  the events being the dispatch and the two commit steps, and a later iteration on the same
  item from that ledger does nothing. The hub's reply has no influence on an iteration.
\<close>

theorem failed_like_still_counted:
  "fst (likeCast cfg reply targetFid targetHash) = Fulfilled ()
   \<and> (hash cast \<notin> repliedToHashes cfg \<and> dailyReplies cfg < maxDailyReplies cfg
       \<and> HubCast.fid cast \<noteq> LocalHubConfig.fid cfg
       \<and> \<not> castAge (now_ms tk) cast > of_int (maxCastAge cfg)
       \<and> \<not> dryRun cfg \<and> hubReply tk = Rejected err \<longrightarrow>
      respondToMentions_body cfg cast tk =
        (Continue,
         cfg\<lparr>repliedToHashes := insert (hash cast) (repliedToHashes cfg),
           dailyReplies := dailyReplies cfg + 1\<rparr>,
         [HubLike (HubCast.fid cast) (hash cast), AddReplied (hash cast), IncReplies])
      \<and> snd (respondToMentions_body
            (cfg\<lparr>repliedToHashes := insert (hash cast) (repliedToHashes cfg),
               dailyReplies := dailyReplies cfg + 1\<rparr>) cast tk')
          = (cfg\<lparr>repliedToHashes := insert (hash cast) (repliedToHashes cfg),
               dailyReplies := dailyReplies cfg + 1\<rparr>, []))
   \<and> (dailyLikes cfg < maxDailyLikes cfg \<and> HubCast.fid cast \<noteq> LocalHubConfig.fid cfg
       \<and> hash cast \<notin> likedHashes cfg
       \<and> \<not> castAge (now_ms tk) cast > of_int (maxCastAge cfg)
       \<and> evaluateRelevance (text cast) \<noteq> Low
       \<and> \<not> dryRun cfg \<and> hubReply tk = Rejected err \<longrightarrow>
      scanChannelsForCasts_body cfg cast tk =
        (Continue,
         cfg\<lparr>likedHashes := insert (hash cast) (likedHashes cfg),
           dailyLikes := dailyLikes cfg + 1\<rparr>,
         [HubLike (HubCast.fid cast) (hash cast), AddLiked (hash cast), IncLikes])
      \<and> snd (scanChannelsForCasts_body
            (cfg\<lparr>likedHashes := insert (hash cast) (likedHashes cfg),
               dailyLikes := dailyLikes cfg + 1\<rparr>) cast tk')
          = (cfg\<lparr>likedHashes := insert (hash cast) (likedHashes cfg),
               dailyLikes := dailyLikes cfg + 1\<rparr>, []))
   \<and> respondToMentions_body cfg cast (tk\<lparr>hubReply := reply\<rparr>)
       = respondToMentions_body cfg cast tk
   \<and> scanChannelsForCasts_body cfg cast (tk\<lparr>hubReply := reply\<rparr>)
       = scanChannelsForCasts_body cfg cast tk"
  by (simp add: likeCast_eq respondToMentions_body_eq scanChannelsForCasts_body_eq)

text \<open>
  The statement at a mention and at a channel cast, with the hub unavailable.
\<close>

theorem failed_like_still_counted_witness:
  "hash freshMention \<notin> repliedToHashes exampleConfig
   \<and> dailyReplies exampleConfig < maxDailyReplies exampleConfig
   \<and> HubCast.fid freshMention \<noteq> LocalHubConfig.fid exampleConfig
   \<and> \<not> castAge (now_ms hubDown) freshMention > of_int (maxCastAge exampleConfig)
   \<and> \<not> dryRun exampleConfig \<and> hubReply hubDown = Rejected ''14 UNAVAILABLE''
   \<and> respondToMentions_body exampleConfig freshMention hubDown =
        (Continue, exampleConfig\<lparr>repliedToHashes := {''0xaa01''}, dailyReplies := 1\<rparr>,
         [HubLike 11 ''0xaa01'', AddReplied ''0xaa01'', IncReplies])
   \<and> dailyLikes exampleConfig < maxDailyLikes exampleConfig
   \<and> HubCast.fid highCast \<noteq> LocalHubConfig.fid exampleConfig
   \<and> hash highCast \<notin> likedHashes exampleConfig
   \<and> \<not> castAge (now_ms hubDown) highCast > of_int (maxCastAge exampleConfig)
   \<and> evaluateRelevance (text highCast) \<noteq> Low
   \<and> scanChannelsForCasts_body exampleConfig highCast hubDown =
        (Continue, exampleConfig\<lparr>likedHashes := {''0xdd01''}, dailyLikes := 1\<rparr>,
         [HubLike 15 ''0xdd01'', AddLiked ''0xdd01'', IncLikes])
   \<and> snd (scanChannelsForCasts_body (exampleConfig\<lparr>likedHashes := {''0xdd01''}, dailyLikes := 1\<rparr>)
        highCast hubUp) = (exampleConfig\<lparr>likedHashes := {''0xdd01''}, dailyLikes := 1\<rparr>, [])"
proof -
  have m: "hash freshMention \<notin> repliedToHashes exampleConfig
     \<and> dailyReplies exampleConfig < maxDailyReplies exampleConfig
     \<and> HubCast.fid freshMention \<noteq> LocalHubConfig.fid exampleConfig
     \<and> \<not> castAge (now_ms hubDown) freshMention > of_int (maxCastAge exampleConfig)
     \<and> \<not> dryRun exampleConfig \<and> hubReply hubDown = Rejected ''14 UNAVAILABLE''"
    by (simp add: example_defs)
  have rel: "evaluateRelevance (text highCast) \<noteq> Low"
    by (simp add: highCast_def relevance_highCast)
  have s: "dailyLikes exampleConfig < maxDailyLikes exampleConfig
     \<and> HubCast.fid highCast \<noteq> LocalHubConfig.fid exampleConfig
     \<and> hash highCast \<notin> likedHashes exampleConfig
     \<and> \<not> castAge (now_ms hubDown) highCast > of_int (maxCastAge exampleConfig)"
    by (simp add: example_defs)
  have v: "hash freshMention = ''0xaa01''" "HubCast.fid freshMention = 11"
    "repliedToHashes exampleConfig = {}" "dailyReplies exampleConfig = 0"
    "hash highCast = ''0xdd01''" "HubCast.fid highCast = 15"
    "likedHashes exampleConfig = {}" "dailyLikes exampleConfig = 0"
    by (simp_all add: example_defs)
  note at_mention = failed_like_still_counted [where cfg = exampleConfig and cast = freshMention
      and tk = hubDown and err = "''14 UNAVAILABLE''" and tk' = hubUp]
  note at_cast = failed_like_still_counted [where cfg = exampleConfig and cast = highCast
      and tk = hubDown and err = "''14 UNAVAILABLE''" and tk' = hubUp]
  have a: "respondToMentions_body exampleConfig freshMention hubDown =
        (Continue, exampleConfig\<lparr>repliedToHashes := {''0xaa01''}, dailyReplies := 1\<rparr>,
         [HubLike 11 ''0xaa01'', AddReplied ''0xaa01'', IncReplies])"
    using at_mention m by (simp add: v)
  have b: "scanChannelsForCasts_body exampleConfig highCast hubDown =
        (Continue, exampleConfig\<lparr>likedHashes := {''0xdd01''}, dailyLikes := 1\<rparr>,
         [HubLike 15 ''0xdd01'', AddLiked ''0xdd01'', IncLikes])
     \<and> snd (scanChannelsForCasts_body (exampleConfig\<lparr>likedHashes := {''0xdd01''}, dailyLikes := 1\<rparr>)
        highCast hubUp) = (exampleConfig\<lparr>likedHashes := {''0xdd01''}, dailyLikes := 1\<rparr>, [])"
    using at_cast m s rel by (simp add: v)
  show ?thesis
    using m s rel a b by blast
qed

subsection \<open>The configured keyword list\<close>

text \<open>
  C10. \<open>evaluateRelevance\<close> takes the text and nothing else, and the two keyword arrays it
  consults are constants. Two configurations that differ only in \<open>scanKeywords\<close> are
  \<open>cfg\<close> and \<open>cfg\<lparr>scanKeywords := ks\<rparr>\<close>: an iteration of the channel lane, where the
  classification is used, and a whole run of either lane, take the same course and produce
  the same events from both, and end in ledgers that differ only in \<open>scanKeywords\<close>.
\<close>

theorem relevance_ignores_scanKeywords:
  "scanChannelsForCasts_body (cfg\<lparr>scanKeywords := ks\<rparr>) cast tk =
     (case scanChannelsForCasts_body cfg cast tk of
        (c, cfg', evs) \<Rightarrow> (c, cfg'\<lparr>scanKeywords := ks\<rparr>, evs))
   \<and> scanChannelsForCasts (cfg\<lparr>scanKeywords := ks\<rparr>) casts =
       (fst (scanChannelsForCasts cfg casts)\<lparr>scanKeywords := ks\<rparr>,
        snd (scanChannelsForCasts cfg casts))
   \<and> respondToMentions (cfg\<lparr>scanKeywords := ks\<rparr>) mentions =
       (fst (respondToMentions cfg mentions)\<lparr>scanKeywords := ks\<rparr>,
        snd (respondToMentions cfg mentions))"
  by (simp add: scanChannelsForCasts_body_eq respondToMentions_scanKeywords
      scanChannelsForCasts_scanKeywords)

end
